theory Spec2Isabelle
  imports Main "HOL-Library.Finite_Map"
begin

section \<open>Python string and pattern operations used by the handlers\<close>

text \<open>
  Strings are lists of characters. \<open>startswith s p\<close> is \<^verbatim>\<open>s.startswith(p)\<close>,
  \<open>py_in sub s\<close> is \<^verbatim>\<open>sub in s\<close> on strings (a contiguous occurrence), and
  \<open>str_split sep s\<close> is \<^verbatim>\<open>s.split(sep)\<close> for a separator of one character: the
  result is never empty, so \<^verbatim>\<open>[-1]\<close> on it is \<open>last\<close>.
\<close>

definition startswith :: "string \<Rightarrow> string \<Rightarrow> bool" where
  "startswith s p = (take (length p) s = p)"

fun py_in :: "string \<Rightarrow> string \<Rightarrow> bool" where
  "py_in sub [] = (sub = [])"
| "py_in sub (c # cs) = (startswith (c # cs) sub \<or> py_in sub cs)"

fun str_split :: "char \<Rightarrow> string \<Rightarrow> string list" where
  "str_split sep [] = [[]]"
| "str_split sep (c # cs) =
     (if c = sep then [] # str_split sep cs
      else (case str_split sep cs of
              w # ws \<Rightarrow> (c # w) # ws
            | [] \<Rightarrow> [[c]]))"

text \<open>
  Character classes of the two patterns. \<open>in_range lo hi c\<close> is the class range
  \<^verbatim>\<open>lo-hi\<close>, by code point.
\<close>

definition in_range :: "char \<Rightarrow> char \<Rightarrow> char \<Rightarrow> bool" where
  "in_range lo hi c = ((of_char lo :: nat) \<le> of_char c \<and> (of_char c :: nat) \<le> of_char hi)"

definition alias_char :: "char \<Rightarrow> bool" where
  "alias_char c =
     (in_range CHR ''a'' CHR ''z'' c \<or> in_range CHR ''A'' CHR ''Z'' c \<or>
      in_range CHR ''0'' CHR ''9'' c \<or> c = CHR '':'' \<or> c = CHR ''/'' \<or>
      c = CHR ''_'' \<or> c = CHR ''-'')"

text \<open>\<^verbatim>\<open>[A-F0-9]\<close> under \<^verbatim>\<open>re.IGNORECASE\<close>.\<close>

definition hex_char :: "char \<Rightarrow> bool" where
  "hex_char c =
     (in_range CHR ''A'' CHR ''F'' c \<or> in_range CHR ''a'' CHR ''f'' c \<or>
      in_range CHR ''0'' CHR ''9'' c)"

text \<open>
  \<^verbatim>\<open>$\<close> without \<^verbatim>\<open>re.MULTILINE\<close> matches at the end of the string and also just
  before a line feed that ends the string. \<open>at_end rest\<close> says that \<^verbatim>\<open>$\<close> matches
  where \<open>rest\<close> is what is left of the subject.
\<close>

definition at_end :: "string \<Rightarrow> bool" where
  "at_end rest = (rest = [] \<or> rest = [CHR 0x0A])"

text \<open>
  \<^verbatim>\<open>re.match(r'^[a-zA-Z0-9:/_-]+$', alias_name)\<close>: the greedy \<^verbatim>\<open>+\<close> takes the
  longest run of class characters; giving characters back never helps \<^verbatim>\<open>$\<close>, since
  what it gives back is a class character and not a line feed.
\<close>

definition alias_name_match :: "string \<Rightarrow> bool" where
  "alias_name_match s =
     (takeWhile alias_char s \<noteq> [] \<and> at_end (dropWhile alias_char s))"

text \<open>
  The pieces of
  \<^verbatim>\<open>^[A-F0-9]{8}-[A-F0-9]{4}-[A-F0-9]{4}-[A-F0-9]{4}-[A-F0-9]{12}$\<close>:
  \<open>hexes n s\<close> consumes exactly \<open>n\<close> hexadecimal digits and \<open>hyphen s\<close> one hyphen;
  each returns what is left of the subject, or \<open>None\<close> when it does not match.
\<close>

fun hexes :: "nat \<Rightarrow> string \<Rightarrow> string option" where
  "hexes 0 s = Some s"
| "hexes (Suc n) [] = None"
| "hexes (Suc n) (c # cs) = (if hex_char c then hexes n cs else None)"

fun hyphen :: "string \<Rightarrow> string option" where
  "hyphen [] = None"
| "hyphen (c # cs) = (if c = CHR ''-'' then Some cs else None)"

definition key_id_match :: "string \<Rightarrow> bool" where
  "key_id_match s =
     (case Option.bind (Option.bind (Option.bind (Option.bind (Option.bind (Option.bind
            (Option.bind (Option.bind (hexes 8 s) hyphen) (hexes 4)) hyphen) (hexes 4)) hyphen)
            (hexes 4)) hyphen) (hexes 12) of
        None \<Rightarrow> False
      | Some rest \<Rightarrow> at_end rest)"

section \<open>Errors\<close>

text \<open>
  The handlers raise boto's \<^verbatim>\<open>JSONResponseError\<close> and two of its subclasses, each
  built as \<^verbatim>\<open>Cls(status, reason, body={'message': ..., '__type': ...})\<close>, and they
  catch \<^verbatim>\<open>KeyError\<close> from the backend. An exception is a value; a handler that
  raises returns it on the left of a sum.
\<close>

datatype exc_class = JSONResponseError | AlreadyExistsException | NotFoundException

record body =
  message :: "string option"
  exc_type :: string

datatype exn = KeyError | Boto exc_class nat string body

text \<open>
  The failure kinds of the specification (section 7). \<open>failure_of\<close> reads the kind of an
  exception off the \<^verbatim>\<open>__type\<close> of its body.
\<close>

datatype failure = NotFound | AlreadyExists | InvalidArgument | NotAuthorized | InvalidCiphertext

fun failure_of :: "exn \<Rightarrow> failure option" where
  "failure_of KeyError = None"
| "failure_of (Boto cls status reason b) =
     (if exc_type b = ''NotFoundException'' then Some NotFound
      else if exc_type b = ''AlreadyExistsException'' then Some AlreadyExists
      else if exc_type b = ''ValidationException'' then Some InvalidArgument
      else if exc_type b = ''NotAuthorizedException'' then Some NotAuthorized
      else if exc_type b = ''InvalidCiphertextException'' then Some InvalidCiphertext
      else None)"

section \<open>Values exchanged with the backend\<close>

text \<open>
  Modelled from the spec: the class \<^verbatim>\<open>Key\<close> of \<^verbatim>\<open>moto/kms/models.py\<close>, which
  \<^verbatim>\<open>responses.py\<close> imports, is missing. The record has the fields of section 3 of the
  specification;
  the handlers read \<^verbatim>\<open>key.id\<close> and \<^verbatim>\<open>key.arn\<close> and serialise the whole record.
\<close>

record key =
  key_id :: string
  key_arn :: string
  key_policy :: "string option"
  key_usage :: "string option"
  key_description :: "string option"
  key_rotation_enabled :: bool

type_synonym bytes = string

text \<open>
  An encryption context is a dictionary from strings to strings, or \<^verbatim>\<open>None\<close> when the
  request has none. Two dictionaries are equal when they hold the same entries.
\<close>

type_synonym encryption_context = "(string, string) fmap option"

text \<open>
  Modelled from the spec: the byte layout of a ciphertext is fixed by
  \<^verbatim>\<open>moto/kms/models.py\<close>, which is missing. Section 3 of the specification describes
  the ciphertext as an envelope that binds the source key identifier, the encryption
  context and the transformed plaintext; every other byte sequence (malformed, or of a
  foreign format) is \<open>Opaque\<close>. The handlers pass ciphertexts through unread.
\<close>

datatype ciphertext_blob = Envelope string encryption_context bytes | Opaque bytes

text \<open>
  What a handler returns: the object it passes to \<^verbatim>\<open>json.dumps\<close>, field by field.
  \<open>Status404\<close> is the pair \<^verbatim>\<open>("{}", headers)\<close> with \<^verbatim>\<open>headers['status'] = 404\<close> that
  \<^verbatim>\<open>describe_key\<close> returns. JSON text and the base64 coding of byte fields belong to
  the transport and are not modelled: byte fields are the bytes themselves.
\<close>

record alias_entry =
  AliasArn :: string
  AliasName :: string
  TargetKeyId :: "string option"

datatype response =
    JsonNone
  | KeyDict key
  | Status404
  | Keys "(string \<times> string) list"
  | Aliases "alias_entry list"
  | KeyRotationEnabled bool
  | Policy "string option"
  | PolicyNames "string list"
  | Encrypted ciphertext_blob string
  | Decrypted string bytes
  | DataKey ciphertext_blob string bytes

text \<open>
  The object \<^verbatim>\<open>self.kms_backend\<close>, as the handlers use it: one field for each method
  they call, over a backend state \<open>'s\<close>. A method that changes the backend returns the
  new state. A method that can raise returns a sum, and an exception leaves the state as
  it was (section 4 of the specification: these methods fail when the key is absent,
  that is at the lookup). \<^verbatim>\<open>add_alias\<close> and \<^verbatim>\<open>delete_alias\<close> do not validate and do
  not fail (section 4.2).
\<close>

record 's kms_backend =
  backend_create_key ::
    "'s \<Rightarrow> string option \<Rightarrow> string option \<Rightarrow> string option \<Rightarrow> string \<Rightarrow> 's \<times> key"
  backend_describe_key :: "'s \<Rightarrow> string \<Rightarrow> exn + key"
  backend_list_keys :: "'s \<Rightarrow> key list"
  backend_alias_exists :: "'s \<Rightarrow> string \<Rightarrow> bool"
  backend_add_alias :: "'s \<Rightarrow> string \<Rightarrow> string \<Rightarrow> 's"
  backend_delete_alias :: "'s \<Rightarrow> string \<Rightarrow> 's"
  backend_get_all_aliases :: "'s \<Rightarrow> (string \<times> string list) list"
  backend_enable_key_rotation :: "'s \<Rightarrow> string \<Rightarrow> exn + 's"
  backend_disable_key_rotation :: "'s \<Rightarrow> string \<Rightarrow> exn + 's"
  backend_get_key_rotation_status :: "'s \<Rightarrow> string \<Rightarrow> exn + bool"
  backend_put_key_policy :: "'s \<Rightarrow> string \<Rightarrow> string option \<Rightarrow> exn + 's"
  backend_get_key_policy :: "'s \<Rightarrow> string \<Rightarrow> exn + string option"
  backend_encrypt :: "'s \<Rightarrow> string \<Rightarrow> bytes \<Rightarrow> encryption_context \<Rightarrow> exn + string \<times> ciphertext_blob"
  backend_decrypt :: "'s \<Rightarrow> ciphertext_blob \<Rightarrow> encryption_context \<Rightarrow> exn + string \<times> bytes"
  backend_generate_data_key ::
    "'s \<Rightarrow> string \<Rightarrow> string option \<Rightarrow> nat option \<Rightarrow> encryption_context
       \<Rightarrow> exn + bytes \<times> string \<times> ciphertext_blob"

section \<open>The handlers of \<^verbatim>\<open>moto/kms/responses.py\<close>\<close>

definition reserved_aliases :: "string list" where
  "reserved_aliases =
     [''alias/aws/ebs'', ''alias/aws/s3'', ''alias/aws/redshift'', ''alias/aws/rds'']"

text \<open>The three module-level helpers.\<close>

definition invalid_key_id :: exn where
  "invalid_key_id =
     Boto JSONResponseError 404 ''Not Found''
       \<lparr>message = Some '' Invalid keyId'', exc_type = ''NotFoundException''\<rparr>"

definition assert_valid_key_id :: "string \<Rightarrow> exn option" where
  "assert_valid_key_id kid = (if \<not> key_id_match kid then Some invalid_key_id else None)"

definition no_such_policy :: exn where
  "no_such_policy =
     Boto JSONResponseError 404 ''Not Found''
       \<lparr>message = Some ''No such policy exists'', exc_type = ''NotFoundException''\<rparr>"

definition assert_default_policy :: "string option \<Rightarrow> exn option" where
  "assert_default_policy policy_name =
     (if policy_name \<noteq> Some ''default'' then Some no_such_policy else None)"

definition parse_key_id :: "string \<Rightarrow> string" where
  "parse_key_id kid =
     (if py_in ''arn'' kid
      then (let id_str = last (str_split CHR '':'' kid) in last (str_split CHR ''/'' id_str))
      else kid)"

text \<open>The exceptions the handlers build, with their messages.\<close>

definition arn_of :: "string \<Rightarrow> string \<Rightarrow> string" where
  "arn_of region name = ''arn:aws:kms:'' @ region @ '':012345678912:'' @ name"

definition invalid_identifier :: exn where
  "invalid_identifier =
     Boto JSONResponseError 400 ''Bad Request''
       \<lparr>message = Some ''Invalid identifier'', exc_type = ''ValidationException''\<rparr>"

definition not_authorized :: exn where
  "not_authorized =
     Boto JSONResponseError 400 ''Bad Request''
       \<lparr>message = None, exc_type = ''NotAuthorizedException''\<rparr>"

definition invalid_characters :: "string \<Rightarrow> exn" where
  "invalid_characters alias_name =
     Boto JSONResponseError 400 ''Bad Request''
       \<lparr>message = Some (alias_name @ '' contains invalid characters for an alias''),
        exc_type = ''ValidationException''\<rparr>"

definition pattern_violation :: "string \<Rightarrow> exn" where
  "pattern_violation alias_name =
     Boto JSONResponseError 400 ''Bad Request''
       \<lparr>message = Some (''1 validation error detected: Value '' @ [CHR 0x27] @ alias_name @
          [CHR 0x27] @ '' at '' @ [CHR 0x27] @ ''aliasName'' @ [CHR 0x27] @
          '' failed to satisfy constraint: Member must satisfy regular expression pattern: '' @
          ''^[a-zA-Z0-9:/_-]+$''),
        exc_type = ''ValidationException''\<rparr>"

definition target_is_alias :: exn where
  "target_is_alias =
     Boto JSONResponseError 400 ''Bad Request''
       \<lparr>message = Some ''Aliases must refer to keys. Not aliases'',
        exc_type = ''ValidationException''\<rparr>"

definition already_exists :: "string \<Rightarrow> string \<Rightarrow> exn" where
  "already_exists region alias_name =
     Boto AlreadyExistsException 400 ''Bad Request''
       \<lparr>message = Some (''An alias with the name '' @ arn_of region alias_name @
          '' already exists''),
        exc_type = ''AlreadyExistsException''\<rparr>"

definition alias_not_found :: "string \<Rightarrow> string \<Rightarrow> exn" where
  "alias_not_found region alias_name =
     Boto NotFoundException 400 ''Bad Request''
       \<lparr>message = Some (''Alias '' @ arn_of region alias_name @ '' is not found.''),
        exc_type = ''NotFoundException''\<rparr>"

definition key_not_found :: "string \<Rightarrow> string \<Rightarrow> exn" where
  "key_not_found region kid =
     Boto JSONResponseError 404 ''Not Found''
       \<lparr>message = Some (''Key '' @ [CHR 0x27] @ arn_of region (''key/'' @ kid) @ [CHR 0x27] @
          '' does not exist''),
        exc_type = ''NotFoundException''\<rparr>"

definition invalid_ciphertext :: exn where
  "invalid_ciphertext =
     Boto JSONResponseError 400 ''Bad Request''
       \<lparr>message = Some ''The specified ciphertext has been corrupted or is otherwise invalid.'',
        exc_type = ''InvalidCiphertextException''\<rparr>"

text \<open>
  A handler takes the backend \<open>B\<close>, the region and the backend state (the three things
  it reads off \<^verbatim>\<open>self\<close>) and the parameters of the request, and returns the backend
  state it leaves behind together with either the exception it raised or its response.
  The parameters a handler cannot work without (\<^verbatim>\<open>KeyId\<close>, \<^verbatim>\<open>AliasName\<close>,
  \<^verbatim>\<open>TargetKeyId\<close>, the byte fields) are taken as present; the others are optional, as
  \<^verbatim>\<open>parameters.get\<close> returns them.
\<close>

type_synonym 's outcome = "'s \<times> (exn + response)"

definition create_key ::
  "'s kms_backend \<Rightarrow> string \<Rightarrow> 's \<Rightarrow> string option \<Rightarrow> string option \<Rightarrow> string option
     \<Rightarrow> 's outcome" where
  "create_key B region s pol usage descr =
     (case backend_create_key B s pol usage descr region of
        (s', k) \<Rightarrow> (s', Inr (KeyDict k)))"

definition describe_key :: "'s kms_backend \<Rightarrow> string \<Rightarrow> 's \<Rightarrow> string \<Rightarrow> 's outcome" where
  "describe_key B region s kid =
     (case backend_describe_key B s kid of
        Inl KeyError \<Rightarrow> (s, Inr Status404)
      | Inl e \<Rightarrow> (s, Inl e)
      | Inr k \<Rightarrow> (s, Inr (KeyDict k)))"

definition list_keys :: "'s kms_backend \<Rightarrow> string \<Rightarrow> 's \<Rightarrow> 's outcome" where
  "list_keys B region s =
     (s, Inr (Keys (map (\<lambda>k. (key_arn k, key_id k)) (backend_list_keys B s))))"

definition create_alias ::
  "'s kms_backend \<Rightarrow> string \<Rightarrow> 's \<Rightarrow> string \<Rightarrow> string \<Rightarrow> 's outcome" where
  "create_alias B region s alias_name target_key_id =
     (if \<not> startswith alias_name ''alias/'' then (s, Inl invalid_identifier)
      else if alias_name \<in> set reserved_aliases then (s, Inl not_authorized)
      else if CHR '':'' \<in> set alias_name then (s, Inl (invalid_characters alias_name))
      else if \<not> alias_name_match alias_name then (s, Inl (pattern_violation alias_name))
      else if backend_alias_exists B s target_key_id then (s, Inl target_is_alias)
      else if backend_alias_exists B s alias_name
        then (s, Inl (already_exists region alias_name))
      else (backend_add_alias B s target_key_id alias_name, Inr JsonNone))"

definition delete_alias :: "'s kms_backend \<Rightarrow> string \<Rightarrow> 's \<Rightarrow> string \<Rightarrow> 's outcome" where
  "delete_alias B region s alias_name =
     (if \<not> startswith alias_name ''alias/'' then (s, Inl invalid_identifier)
      else if \<not> backend_alias_exists B s alias_name
        then (s, Inl (alias_not_found region alias_name))
      else (backend_delete_alias B s alias_name, Inr JsonNone))"

definition list_aliases :: "'s kms_backend \<Rightarrow> string \<Rightarrow> 's \<Rightarrow> 's outcome" where
  "list_aliases B region s =
     (let response_aliases =
            map (\<lambda>reserved_alias.
                   \<lparr>AliasArn = arn_of region reserved_alias, AliasName = reserved_alias,
                    TargetKeyId = None\<rparr>) reserved_aliases;
          backend_aliases = backend_get_all_aliases B s
      in (s, Inr (Aliases (response_aliases @
            concat (map (\<lambda>(target_key_id, aliases).
                      map (\<lambda>alias_name.
                             \<lparr>AliasArn = arn_of region alias_name, AliasName = alias_name,
                              TargetKeyId = Some target_key_id\<rparr>) aliases)
                    backend_aliases)))))"

definition enable_key_rotation :: "'s kms_backend \<Rightarrow> string \<Rightarrow> 's \<Rightarrow> string \<Rightarrow> 's outcome" where
  "enable_key_rotation B region s kid =
     (case assert_valid_key_id kid of
        Some e \<Rightarrow> (s, Inl e)
      | None \<Rightarrow>
          (case backend_enable_key_rotation B s kid of
             Inl KeyError \<Rightarrow> (s, Inl (key_not_found region kid))
           | Inl e \<Rightarrow> (s, Inl e)
           | Inr s' \<Rightarrow> (s', Inr JsonNone)))"

definition disable_key_rotation :: "'s kms_backend \<Rightarrow> string \<Rightarrow> 's \<Rightarrow> string \<Rightarrow> 's outcome" where
  "disable_key_rotation B region s kid =
     (case assert_valid_key_id kid of
        Some e \<Rightarrow> (s, Inl e)
      | None \<Rightarrow>
          (case backend_disable_key_rotation B s kid of
             Inl KeyError \<Rightarrow> (s, Inl (key_not_found region kid))
           | Inl e \<Rightarrow> (s, Inl e)
           | Inr s' \<Rightarrow> (s', Inr JsonNone)))"

definition get_key_rotation_status ::
  "'s kms_backend \<Rightarrow> string \<Rightarrow> 's \<Rightarrow> string \<Rightarrow> 's outcome" where
  "get_key_rotation_status B region s kid =
     (case assert_valid_key_id kid of
        Some e \<Rightarrow> (s, Inl e)
      | None \<Rightarrow>
          (case backend_get_key_rotation_status B s kid of
             Inl KeyError \<Rightarrow> (s, Inl (key_not_found region kid))
           | Inl e \<Rightarrow> (s, Inl e)
           | Inr rotation_enabled \<Rightarrow> (s, Inr (KeyRotationEnabled rotation_enabled))))"

definition put_key_policy ::
  "'s kms_backend \<Rightarrow> string \<Rightarrow> 's \<Rightarrow> string \<Rightarrow> string option \<Rightarrow> string option \<Rightarrow> 's outcome" where
  "put_key_policy B region s kid policy_name pol =
     (case assert_valid_key_id kid of
        Some e \<Rightarrow> (s, Inl e)
      | None \<Rightarrow>
          (case assert_default_policy policy_name of
             Some e \<Rightarrow> (s, Inl e)
           | None \<Rightarrow>
               (case backend_put_key_policy B s kid pol of
                  Inl KeyError \<Rightarrow> (s, Inl (key_not_found region kid))
                | Inl e \<Rightarrow> (s, Inl e)
                | Inr s' \<Rightarrow> (s', Inr JsonNone))))"

definition get_key_policy ::
  "'s kms_backend \<Rightarrow> string \<Rightarrow> 's \<Rightarrow> string \<Rightarrow> string option \<Rightarrow> 's outcome" where
  "get_key_policy B region s kid policy_name =
     (case assert_valid_key_id kid of
        Some e \<Rightarrow> (s, Inl e)
      | None \<Rightarrow>
          (case assert_default_policy policy_name of
             Some e \<Rightarrow> (s, Inl e)
           | None \<Rightarrow>
               (case backend_get_key_policy B s kid of
                  Inl KeyError \<Rightarrow> (s, Inl (key_not_found region kid))
                | Inl e \<Rightarrow> (s, Inl e)
                | Inr pol \<Rightarrow> (s, Inr (Policy pol)))))"

definition list_key_policies :: "'s kms_backend \<Rightarrow> string \<Rightarrow> 's \<Rightarrow> string \<Rightarrow> 's outcome" where
  "list_key_policies B region s kid =
     (case assert_valid_key_id kid of
        Some e \<Rightarrow> (s, Inl e)
      | None \<Rightarrow>
          (case backend_describe_key B s kid of
             Inl KeyError \<Rightarrow> (s, Inl (key_not_found region kid))
           | Inl e \<Rightarrow> (s, Inl e)
           | Inr k \<Rightarrow> (s, Inr (PolicyNames [''default'']))))"

definition encrypt ::
  "'s kms_backend \<Rightarrow> string \<Rightarrow> 's \<Rightarrow> string \<Rightarrow> bytes \<Rightarrow> encryption_context \<Rightarrow> 's outcome" where
  "encrypt B region s kid plaintext ctx =
     (let parsed_key_id = parse_key_id kid in
      case assert_valid_key_id parsed_key_id of
        Some e \<Rightarrow> (s, Inl e)
      | None \<Rightarrow>
          (case backend_encrypt B s kid plaintext ctx of
             Inl e \<Rightarrow> (s, Inl e)
           | Inr (ciphertext_key_id, ciphertext) \<Rightarrow>
               (s, Inr (Encrypted ciphertext ciphertext_key_id))))"

definition decrypt ::
  "'s kms_backend \<Rightarrow> string \<Rightarrow> 's \<Rightarrow> ciphertext_blob \<Rightarrow> encryption_context \<Rightarrow> 's outcome" where
  "decrypt B region s ciphertext ctx =
     (case backend_decrypt B s ciphertext ctx of
        Inl KeyError \<Rightarrow> (s, Inl invalid_ciphertext)
      | Inl e \<Rightarrow> (s, Inl e)
      | Inr (kid, plaintext) \<Rightarrow> (s, Inr (Decrypted kid plaintext)))"

definition generate_data_key ::
  "'s kms_backend \<Rightarrow> string \<Rightarrow> 's \<Rightarrow> string \<Rightarrow> string option \<Rightarrow> nat option
     \<Rightarrow> encryption_context \<Rightarrow> 's outcome" where
  "generate_data_key B region s kid key_spec number_of_bytes ctx =
     (let parsed_key_id = parse_key_id kid in
      case assert_valid_key_id parsed_key_id of
        Some e \<Rightarrow> (s, Inl e)
      | None \<Rightarrow>
          (case backend_generate_data_key B s kid key_spec number_of_bytes ctx of
             Inl e \<Rightarrow> (s, Inl e)
           | Inr (plaintext, backend_key_id, ciphertext) \<Rightarrow>
               (s, Inr (DataKey ciphertext kid plaintext))))"

text \<open>
  A request names the handler and carries its parameters; \<open>handle\<close> is the dispatch on the
  action name, so that a statement about every operation is a statement about every
  request.
\<close>

datatype request =
    CreateKey "string option" "string option" "string option"
  | DescribeKey string
  | ListKeys
  | CreateAlias string string
  | DeleteAlias string
  | ListAliases
  | EnableKeyRotation string
  | DisableKeyRotation string
  | GetKeyRotationStatus string
  | PutKeyPolicy string "string option" "string option"
  | GetKeyPolicy string "string option"
  | ListKeyPolicies string
  | Encrypt string bytes encryption_context
  | Decrypt ciphertext_blob encryption_context
  | GenerateDataKey string "string option" "nat option" encryption_context

fun handle :: "'s kms_backend \<Rightarrow> string \<Rightarrow> 's \<Rightarrow> request \<Rightarrow> 's outcome" where
  "handle B region s (CreateKey pol usage descr) = create_key B region s pol usage descr"
| "handle B region s (DescribeKey kid) = describe_key B region s kid"
| "handle B region s ListKeys = list_keys B region s"
| "handle B region s (CreateAlias alias_name target_key_id) =
     create_alias B region s alias_name target_key_id"
| "handle B region s (DeleteAlias alias_name) = delete_alias B region s alias_name"
| "handle B region s ListAliases = list_aliases B region s"
| "handle B region s (EnableKeyRotation kid) = enable_key_rotation B region s kid"
| "handle B region s (DisableKeyRotation kid) = disable_key_rotation B region s kid"
| "handle B region s (GetKeyRotationStatus kid) = get_key_rotation_status B region s kid"
| "handle B region s (PutKeyPolicy kid policy_name pol) =
     put_key_policy B region s kid policy_name pol"
| "handle B region s (GetKeyPolicy kid policy_name) = get_key_policy B region s kid policy_name"
| "handle B region s (ListKeyPolicies kid) = list_key_policies B region s kid"
| "handle B region s (Encrypt kid plaintext ctx) = encrypt B region s kid plaintext ctx"
| "handle B region s (Decrypt ciphertext ctx) = decrypt B region s ciphertext ctx"
| "handle B region s (GenerateDataKey kid key_spec number_of_bytes ctx) =
     generate_data_key B region s kid key_spec number_of_bytes ctx"

text \<open>
  The failure kind of an outcome, if it is a failure: the kind of the exception raised,
  and \<open>NotFound\<close> for the 404 answer of \<^verbatim>\<open>describe_key\<close>.
\<close>

fun outcome_failure :: "exn + response \<Rightarrow> failure option" where
  "outcome_failure (Inl e) = failure_of e"
| "outcome_failure (Inr Status404) = Some NotFound"
| "outcome_failure (Inr r) = None"

fun failed :: "exn + response \<Rightarrow> bool" where
  "failed (Inl e) = True"
| "failed (Inr Status404) = True"
| "failed (Inr r) = False"

section \<open>The backend, from the specification\<close>

text \<open>
  Modelled from the spec: the class \<^verbatim>\<open>KmsBackend\<close> of \<^verbatim>\<open>moto/kms/models.py\<close>, which
  \<^verbatim>\<open>responses.py\<close> imports, is missing. Its state is the key registry (a dictionary from key
  identifiers to keys, which carry their policy and rotation flag) and the alias index
  in the form \<^verbatim>\<open>get_all_aliases\<close> hands out, a dictionary from target key identifiers
  to their sets of alias names (sections 2, 3 and 4.2). Dictionaries and sets are
  association lists and lists here, so that listings can be computed.
\<close>

record kms_state =
  state_keys :: "(string \<times> key) list"
  state_aliases :: "(string \<times> string list) list"

definition empty_state :: kms_state where
  "empty_state = \<lparr>state_keys = [], state_aliases = []\<rparr>"

text \<open>\<open>store k v d\<close> is the dictionary assignment \<^verbatim>\<open>d[k] = v\<close>.\<close>

fun store :: "'k \<Rightarrow> 'v \<Rightarrow> ('k \<times> 'v) list \<Rightarrow> ('k \<times> 'v) list" where
  "store k v [] = [(k, v)]"
| "store k v ((k', v') # d) = (if k' = k then (k, v) # d else (k', v') # store k v d)"

text \<open>
  Modelled from the spec: key lookup of the absent backend. Section 9: one function
  resolves a key reference (a bare identifier or an ARN) to its trailing identifier
  segment for every operation that accepts one; the registry is then read at that
  identifier, and a missing entry is a \<^verbatim>\<open>KeyError\<close>, which is what the handlers catch.
\<close>

definition find_key :: "kms_state \<Rightarrow> string \<Rightarrow> exn + key" where
  "find_key s ref =
     (case map_of (state_keys s) (parse_key_id ref) of
        None \<Rightarrow> Inl KeyError
      | Some k \<Rightarrow> Inr k)"

text \<open>
  Modelled from the spec: \<^verbatim>\<open>create_key\<close> of the absent backend (section 4.1). It never
  fails and stores a key with the rotation flag off under a freshly generated
  identifier. The generator is the parameter \<open>gen\<close>; the ARN combines region, account
  placeholder and identifier.
\<close>

definition spec_create_key ::
  "(kms_state \<Rightarrow> string) \<Rightarrow> kms_state \<Rightarrow> string option \<Rightarrow> string option \<Rightarrow> string option
     \<Rightarrow> string \<Rightarrow> kms_state \<times> key" where
  "spec_create_key gen s pol usage descr region =
     (let k = \<lparr>key_id = gen s, key_arn = arn_of region (''key/'' @ gen s), key_policy = pol,
               key_usage = usage, key_description = descr, key_rotation_enabled = False\<rparr>
      in (s\<lparr>state_keys := store (gen s) k (state_keys s)\<rparr>, k))"

text \<open>
  Modelled from the spec: the alias index of the absent backend (section 4.2).
  \<^verbatim>\<open>alias_exists\<close> says whether its argument is a registered alias name; the handler
  calls it on the alias name and also on the target, for the check that a target is
  not itself an alias. \<^verbatim>\<open>add_alias\<close> stores the mapping and \<^verbatim>\<open>delete_alias\<close> removes
  it, neither validating.
\<close>

definition spec_alias_exists :: "kms_state \<Rightarrow> string \<Rightarrow> bool" where
  "spec_alias_exists s name = list_ex (\<lambda>(target, aliases). name \<in> set aliases) (state_aliases s)"

definition spec_add_alias :: "kms_state \<Rightarrow> string \<Rightarrow> string \<Rightarrow> kms_state" where
  "spec_add_alias s target name =
     s\<lparr>state_aliases :=
         (case map_of (state_aliases s) target of
            None \<Rightarrow> store target [name] (state_aliases s)
          | Some aliases \<Rightarrow> store target (List.insert name aliases) (state_aliases s))\<rparr>"

definition spec_delete_alias :: "kms_state \<Rightarrow> string \<Rightarrow> kms_state" where
  "spec_delete_alias s name =
     s\<lparr>state_aliases := map (\<lambda>(target, aliases). (target, removeAll name aliases))
                            (state_aliases s)\<rparr>"

text \<open>
  Modelled from the spec: rotation flag and policy of the absent backend (sections 4.1
  and 4.3). Each fails when the key is absent and otherwise reads or writes the one
  field. The policy name is checked by the handler, which passes only the document.
\<close>

definition set_rotation :: "bool \<Rightarrow> kms_state \<Rightarrow> string \<Rightarrow> exn + kms_state" where
  "set_rotation flag s ref =
     (case find_key s ref of
        Inl e \<Rightarrow> Inl e
      | Inr k \<Rightarrow>
          Inr (s\<lparr>state_keys :=
                 store (key_id k) (k\<lparr>key_rotation_enabled := flag\<rparr>) (state_keys s)\<rparr>))"

definition spec_get_key_rotation_status :: "kms_state \<Rightarrow> string \<Rightarrow> exn + bool" where
  "spec_get_key_rotation_status s ref = map_sum id key_rotation_enabled (find_key s ref)"

definition spec_put_key_policy :: "kms_state \<Rightarrow> string \<Rightarrow> string option \<Rightarrow> exn + kms_state" where
  "spec_put_key_policy s ref pol =
     (case find_key s ref of
        Inl e \<Rightarrow> Inl e
      | Inr k \<Rightarrow>
          Inr (s\<lparr>state_keys := store (key_id k) (k\<lparr>key_policy := pol\<rparr>) (state_keys s)\<rparr>))"

definition spec_get_key_policy :: "kms_state \<Rightarrow> string \<Rightarrow> exn + string option" where
  "spec_get_key_policy s ref = map_sum id key_policy (find_key s ref)"

text \<open>
  Modelled from the spec: the envelope transform of the absent backend (sections 3, 4.4
  and 9). \<^verbatim>\<open>encrypt\<close> resolves the key reference and binds the resolved identifier,
  the context and the plaintext into an envelope, without asking whether the key is
  registered. \<^verbatim>\<open>decrypt\<close> fails on anything that is not an envelope, on an envelope
  whose bound context is not the one supplied, and when the envelope's key is not
  registered; it signals failure by \<^verbatim>\<open>KeyError\<close>, the one exception the handler turns
  into the invalid-ciphertext error. The transform of the payload is left as the
  identity: the specification only asks that it be reversible.
\<close>

definition spec_encrypt ::
  "kms_state \<Rightarrow> string \<Rightarrow> bytes \<Rightarrow> encryption_context \<Rightarrow> exn + string \<times> ciphertext_blob" where
  "spec_encrypt s ref plaintext ctx =
     Inr (parse_key_id ref, Envelope (parse_key_id ref) ctx plaintext)"

fun spec_decrypt ::
  "kms_state \<Rightarrow> ciphertext_blob \<Rightarrow> encryption_context \<Rightarrow> exn + string \<times> bytes" where
  "spec_decrypt s (Opaque b) ctx = Inl KeyError"
| "spec_decrypt s (Envelope kid bound payload) ctx =
     (if bound \<noteq> ctx then Inl KeyError
      else (case map_of (state_keys s) kid of
              None \<Rightarrow> Inl KeyError
            | Some k \<Rightarrow> Inr (kid, payload)))"

text \<open>
  Modelled from the spec: \<^verbatim>\<open>generate_data_key\<close> of the absent backend (section 4.4):
  fresh random bytes of the requested length, encrypted as \<^verbatim>\<open>encrypt\<close> does. The
  random source is the parameter \<open>rnd\<close>, given the key spec and the number of bytes.
\<close>

definition spec_generate_data_key ::
  "(string option \<Rightarrow> nat option \<Rightarrow> bytes) \<Rightarrow> kms_state \<Rightarrow> string \<Rightarrow> string option \<Rightarrow> nat option
     \<Rightarrow> encryption_context \<Rightarrow> exn + bytes \<times> string \<times> ciphertext_blob" where
  "spec_generate_data_key rnd s ref key_spec number_of_bytes ctx =
     (let plaintext = rnd key_spec number_of_bytes
      in Inr (plaintext, parse_key_id ref, Envelope (parse_key_id ref) ctx plaintext))"

text \<open>
  Modelled from the spec: the backend object of the absent \<^verbatim>\<open>moto/kms/models.py\<close>,
  assembled from the operations above. \<^verbatim>\<open>describe_key\<close> is the key lookup,
  \<^verbatim>\<open>list_keys\<close> hands out the registered keys and \<^verbatim>\<open>get_all_aliases\<close> the alias index
  (sections 4.1 and 4.2).
\<close>

definition spec_backend ::
  "(kms_state \<Rightarrow> string) \<Rightarrow> (string option \<Rightarrow> nat option \<Rightarrow> bytes) \<Rightarrow> kms_state kms_backend" where
  "spec_backend gen rnd =
     \<lparr>backend_create_key = spec_create_key gen,
      backend_describe_key = find_key,
      backend_list_keys = (\<lambda>s. map snd (state_keys s)),
      backend_alias_exists = spec_alias_exists,
      backend_add_alias = spec_add_alias,
      backend_delete_alias = spec_delete_alias,
      backend_get_all_aliases = state_aliases,
      backend_enable_key_rotation = set_rotation True,
      backend_disable_key_rotation = set_rotation False,
      backend_get_key_rotation_status = spec_get_key_rotation_status,
      backend_put_key_policy = spec_put_key_policy,
      backend_get_key_policy = spec_get_key_policy,
      backend_encrypt = spec_encrypt,
      backend_decrypt = spec_decrypt,
      backend_generate_data_key = spec_generate_data_key rnd\<rparr>"

text \<open>The backend states that requests can produce, starting from the empty backend.\<close>

inductive reachable ::
  "(kms_state \<Rightarrow> string) \<Rightarrow> (string option \<Rightarrow> nat option \<Rightarrow> bytes) \<Rightarrow> kms_state \<Rightarrow> bool"
  for gen rnd where
  initial: "reachable gen rnd empty_state"
| step: "reachable gen rnd s \<Longrightarrow>
         reachable gen rnd (fst (handle (spec_backend gen rnd) region s req))"

section \<open>Notions of the specification\<close>

text \<open>
  The validation sequence of alias creation as the specification words it (section 4.5):
  six checks in a fixed order, each with the failure it raises, the first failing check
  deciding the outcome. A check is listed as the condition that lets the request pass.
  Check (5) is listed as the handler performs it: the target is not a registered alias.
\<close>

fun first_failure :: "(bool \<times> 'e) list \<Rightarrow> 'e option" where
  "first_failure [] = None"
| "first_failure ((passes, e) # checks) = (if passes then first_failure checks else Some e)"

definition alias_creation_sequence ::
  "'s kms_backend \<Rightarrow> string \<Rightarrow> 's \<Rightarrow> string \<Rightarrow> string \<Rightarrow> (bool \<times> exn) list" where
  "alias_creation_sequence B region s alias_name target_key_id =
     [(startswith alias_name ''alias/'', invalid_identifier),
      (alias_name \<notin> set reserved_aliases, not_authorized),
      (CHR '':'' \<notin> set alias_name, invalid_characters alias_name),
      (alias_name_match alias_name, pattern_violation alias_name),
      (\<not> backend_alias_exists B s target_key_id, target_is_alias),
      (\<not> backend_alias_exists B s alias_name, already_exists region alias_name)]"

text \<open>The alias names that a response of \<^verbatim>\<open>list_aliases\<close> lists.\<close>

fun listed_alias_names :: "exn + response \<Rightarrow> string list" where
  "listed_alias_names (Inr (Aliases entries)) = map AliasName entries"
| "listed_alias_names other = []"

text \<open>
  The canonical shape of a key identifier as the specification words it (section 4.1):
  five groups of hexadecimal digits separated by hyphens, of lengths 8, 4, 4, 4 and 12,
  in either case.
\<close>

definition canonical_key_id :: "string \<Rightarrow> bool" where
  "canonical_key_id s =
     (map length (str_split CHR ''-'' s) = [8, 4, 4, 4, 12] \<and>
      list_all (list_all hex_char) (str_split CHR ''-'' s))"

section \<open>Example values\<close>

text \<open>
  A backend with one key, used where a statement is tried on concrete input. The
  identifier generator always returns the one identifier and the random source a fixed
  block of sixteen bytes.
\<close>

definition example_key_id :: string where
  "example_key_id = ''1234abcd-12ab-34cd-56ef-1234567890ab''"

definition example_arn :: string where
  "example_arn = ''arn:aws:kms:us-east-1:012345678912:key/1234abcd-12ab-34cd-56ef-1234567890ab''"

definition example_backend :: "kms_state kms_backend" where
  "example_backend = spec_backend (\<lambda>s. example_key_id) (\<lambda>key_spec n. ''0123456789abcdef'')"

definition example_key :: key where
  "example_key =
     \<lparr>key_id = example_key_id, key_arn = example_arn, key_policy = Some ''{}'',
      key_usage = Some ''ENCRYPT_DECRYPT'', key_description = None,
      key_rotation_enabled = False\<rparr>"

definition example_state :: kms_state where
  "example_state = \<lparr>state_keys = [(example_key_id, example_key)], state_aliases = []\<rparr>"

section \<open>Basic facts\<close>

lemma example_state_created:
  "create_key example_backend ''us-east-1'' empty_state (Some ''{}'') (Some ''ENCRYPT_DECRYPT'') None
     = (example_state, Inr (KeyDict example_key))"
  by (simp add: create_key_def example_backend_def spec_backend_def spec_create_key_def
      empty_state_def example_state_def example_key_def example_arn_def example_key_id_def
      arn_of_def Let_def)

lemma example_key_id_match: "key_id_match example_key_id"
  unfolding example_key_id_def by code_simp

lemma parse_example_arn: "parse_key_id example_arn = example_key_id"
  unfolding example_key_id_def example_arn_def by code_simp

lemma find_example_key: "find_key example_state example_key_id = Inr example_key"
  by (simp add: find_key_def example_state_def parse_key_id_def example_key_id_def)

lemma failure_of_errors:
  "failure_of invalid_key_id = Some NotFound"
  "failure_of no_such_policy = Some NotFound"
  "failure_of invalid_identifier = Some InvalidArgument"
  "failure_of not_authorized = Some NotAuthorized"
  "failure_of (invalid_characters n) = Some InvalidArgument"
  "failure_of (pattern_violation n) = Some InvalidArgument"
  "failure_of target_is_alias = Some InvalidArgument"
  "failure_of (already_exists region n) = Some AlreadyExists"
  "failure_of (alias_not_found region n) = Some NotFound"
  "failure_of (key_not_found region kid) = Some NotFound"
  "failure_of invalid_ciphertext = Some InvalidCiphertext"
  by (simp_all add: invalid_key_id_def no_such_policy_def invalid_identifier_def
      not_authorized_def invalid_characters_def pattern_violation_def target_is_alias_def
      already_exists_def alias_not_found_def key_not_found_def invalid_ciphertext_def)

subsection \<open>Splitting and key references\<close>

lemma str_split_length: "length (str_split sep s) = Suc (length (filter (\<lambda>c. c = sep) s))"
  by (induction s) (auto split: list.splits)

lemma str_split_not_Nil: "str_split sep s \<noteq> []"
  using str_split_length [of sep s] by auto

lemma str_split_no_sep: "sep \<notin> set s \<Longrightarrow> str_split sep s = [s]"
  by (induction s) auto

lemma last_str_split_append:
  "last (str_split sep (xs @ sep # ys)) = last (str_split sep ys)"
proof (induction xs)
  case Nil
  then show ?case by (simp add: str_split_not_Nil)
next
  case (Cons x xs)
  show ?case
  proof (cases "x = sep")
    case True
    with Cons show ?thesis by (simp add: str_split_not_Nil)
  next
    case False
    obtain w ws where split: "str_split sep (xs @ sep # ys) = w # ws"
      using str_split_not_Nil [of sep "xs @ sep # ys"] by (cases "str_split sep (xs @ sep # ys)") auto
    have "length (str_split sep (xs @ sep # ys)) \<ge> 2"
      by (simp add: str_split_length)
    with split have "ws \<noteq> []" by auto
    with False split Cons show ?thesis by simp
  qed
qed

lemma parse_key_id_bare: "\<not> py_in ''arn'' ref \<Longrightarrow> parse_key_id ref = ref"
  by (simp add: parse_key_id_def)

lemma parse_key_id_arn:
  assumes "CHR '':'' \<notin> set kid" and "CHR ''/'' \<notin> set kid"
  shows "parse_key_id (arn_of region (''key/'' @ kid)) = kid"
proof -
  have arn: "py_in ''arn'' (arn_of region (''key/'' @ kid))"
    by (simp add: arn_of_def startswith_def)
  have "arn_of region (''key/'' @ kid)
          = (''arn:aws:kms:'' @ region @ '':012345678912'') @ CHR '':'' # (''key/'' @ kid)"
    by (simp add: arn_of_def)
  then have "last (str_split CHR '':'' (arn_of region (''key/'' @ kid)))
               = last (str_split CHR '':'' (''key/'' @ kid))"
    by (simp only: last_str_split_append)
  also have "\<dots> = ''key/'' @ kid"
    using assms(1) by (simp add: str_split_no_sep)
  finally have colon: "last (str_split CHR '':'' (arn_of region (''key/'' @ kid))) = ''key/'' @ kid" .
  have "last (str_split CHR ''/'' (''key'' @ CHR ''/'' # kid)) = last (str_split CHR ''/'' kid)"
    by (simp only: last_str_split_append)
  then have slash: "last (str_split CHR ''/'' (''key/'' @ kid)) = kid"
    using assms(2) by (simp add: str_split_no_sep)
  show ?thesis
    using arn colon slash by (simp add: parse_key_id_def Let_def)
qed

subsection \<open>The key-id pattern and the canonical shape\<close>

lemma hex_char_not_hyphen: "hex_char c \<Longrightarrow> c \<noteq> CHR ''-''"
  by (auto simp: hex_char_def in_range_def)

lemma hexes_Some:
  "hexes n s = Some rest \<longleftrightarrow> (\<exists>g. s = g @ rest \<and> length g = n \<and> list_all hex_char g)"
proof (induction n arbitrary: s)
  case 0
  then show ?case by auto
next
  case (Suc n)
  show ?case
  proof (cases s)
    case Nil
    then show ?thesis by auto
  next
    case (Cons c cs)
    show ?thesis
    proof
      assume "hexes (Suc n) s = Some rest"
      with Cons have c: "hex_char c" and "hexes n cs = Some rest"
        by (auto split: if_splits)
      with Suc.IH obtain g where "cs = g @ rest" "length g = n" "list_all hex_char g" by blast
      with c Cons have "s = (c # g) @ rest \<and> length (c # g) = Suc n \<and> list_all hex_char (c # g)"
        by simp
      then show "\<exists>g. s = g @ rest \<and> length g = Suc n \<and> list_all hex_char g" by blast
    next
      assume "\<exists>g. s = g @ rest \<and> length g = Suc n \<and> list_all hex_char g"
      then obtain g where g: "s = g @ rest" "length g = Suc n" "list_all hex_char g" by blast
      then obtain d ds where "g = d # ds" by (cases g) auto
      with g Cons have "c = d" "cs = ds @ rest" "length ds = n" "list_all hex_char ds" "hex_char d"
        by auto
      with Suc.IH [of cs] Cons show "hexes (Suc n) s = Some rest" by auto
    qed
  qed
qed

lemma hyphen_Some: "hyphen s = Some rest \<longleftrightarrow> s = CHR ''-'' # rest"
  by (cases s) auto

lemma str_split_append:
  "sep \<notin> set g \<Longrightarrow> str_split sep (g @ sep # rest) = g # str_split sep rest"
  by (induction g) auto

lemma str_split_single: "str_split sep s = [g] \<Longrightarrow> s = g \<and> sep \<notin> set g"
proof (induction s arbitrary: g)
  case Nil
  then show ?case by simp
next
  case (Cons c cs)
  show ?case
  proof (cases "c = sep")
    case True
    with Cons.prems show ?thesis by (simp add: str_split_not_Nil)
  next
    case False
    with Cons.prems obtain w where "str_split sep cs = [w]" "g = c # w"
      using str_split_not_Nil [of sep cs] by (auto split: list.splits)
    with Cons.IH [of w] False show ?thesis by auto
  qed
qed

lemma str_split_Cons:
  "str_split sep s = g # h # gs \<Longrightarrow>
     \<exists>rest. s = g @ sep # rest \<and> str_split sep rest = h # gs \<and> sep \<notin> set g"
proof (induction s arbitrary: g)
  case Nil
  then show ?case by simp
next
  case (Cons c cs)
  show ?case
  proof (cases "c = sep")
    case True
    with Cons.prems show ?thesis by auto
  next
    case False
    with Cons.prems obtain w where w: "str_split sep cs = w # h # gs" "g = c # w"
      using str_split_not_Nil [of sep cs] by (auto split: list.splits)
    from Cons.IH [OF w(1)] obtain rest
      where "cs = w @ sep # rest" "str_split sep rest = h # gs" "sep \<notin> set w" by blast
    with w False show ?thesis by auto
  qed
qed

lemma canonical_key_id_iff:
  "canonical_key_id s \<longleftrightarrow>
     (\<exists>g1 g2 g3 g4 g5.
        s = g1 @ CHR ''-'' # g2 @ CHR ''-'' # g3 @ CHR ''-'' # g4 @ CHR ''-'' # g5 \<and>
        length g1 = 8 \<and> length g2 = 4 \<and> length g3 = 4 \<and> length g4 = 4 \<and> length g5 = 12 \<and>
        list_all hex_char g1 \<and> list_all hex_char g2 \<and> list_all hex_char g3 \<and>
        list_all hex_char g4 \<and> list_all hex_char g5)"
  (is "?L \<longleftrightarrow> ?R")
proof
  assume ?L
  then obtain g1 g2 g3 g4 g5 where split: "str_split CHR ''-'' s = [g1, g2, g3, g4, g5]"
    and len: "length g1 = 8" "length g2 = 4" "length g3 = 4" "length g4 = 4" "length g5 = 12"
    and hex: "list_all hex_char g1" "list_all hex_char g2" "list_all hex_char g3"
      "list_all hex_char g4" "list_all hex_char g5"
    by (auto simp: canonical_key_id_def map_eq_Cons_conv)
  from str_split_Cons [OF split] obtain r1
    where r1: "s = g1 @ CHR ''-'' # r1" "str_split CHR ''-'' r1 = [g2, g3, g4, g5]" by blast
  from str_split_Cons [OF r1(2)] obtain r2
    where r2: "r1 = g2 @ CHR ''-'' # r2" "str_split CHR ''-'' r2 = [g3, g4, g5]" by blast
  from str_split_Cons [OF r2(2)] obtain r3
    where r3: "r2 = g3 @ CHR ''-'' # r3" "str_split CHR ''-'' r3 = [g4, g5]" by blast
  from str_split_Cons [OF r3(2)] obtain r4
    where r4: "r3 = g4 @ CHR ''-'' # r4" "str_split CHR ''-'' r4 = [g5]" by blast
  from str_split_single [OF r4(2)] have "r4 = g5" by simp
  with r1 r2 r3 r4 len hex show ?R by blast
next
  assume ?R
  then obtain g1 g2 g3 g4 g5
    where s: "s = g1 @ CHR ''-'' # g2 @ CHR ''-'' # g3 @ CHR ''-'' # g4 @ CHR ''-'' # g5"
    and len: "length g1 = 8" "length g2 = 4" "length g3 = 4" "length g4 = 4" "length g5 = 12"
    and hex: "list_all hex_char g1" "list_all hex_char g2" "list_all hex_char g3"
      "list_all hex_char g4" "list_all hex_char g5"
    by blast
  have no: "\<And>g. list_all hex_char g \<Longrightarrow> CHR ''-'' \<notin> set g"
    by (auto simp: list_all_iff dest: hex_char_not_hyphen)
  have "str_split CHR ''-'' s = [g1, g2, g3, g4, g5]"
    using s no [OF hex(1)] no [OF hex(2)] no [OF hex(3)] no [OF hex(4)] no [OF hex(5)]
    by (simp add: str_split_append str_split_no_sep)
  with len hex show ?L by (simp add: canonical_key_id_def)
qed

lemma hexes_append:
  "length g = n \<Longrightarrow> list_all hex_char g \<Longrightarrow> hexes n (g @ rest) = Some rest"
  by (simp add: hexes_Some)

lemma key_id_match_iff:
  "key_id_match s \<longleftrightarrow>
     (\<exists>g1 g2 g3 g4 g5 rest.
        s = g1 @ CHR ''-'' # g2 @ CHR ''-'' # g3 @ CHR ''-'' # g4 @ CHR ''-'' # g5 @ rest \<and>
        length g1 = 8 \<and> length g2 = 4 \<and> length g3 = 4 \<and> length g4 = 4 \<and> length g5 = 12 \<and>
        list_all hex_char g1 \<and> list_all hex_char g2 \<and> list_all hex_char g3 \<and>
        list_all hex_char g4 \<and> list_all hex_char g5 \<and> at_end rest)"
  (is "?L \<longleftrightarrow> ?R")
proof
  assume ?L
  then obtain rest where chain:
    "Option.bind (Option.bind (Option.bind (Option.bind (Option.bind (Option.bind
       (Option.bind (Option.bind (hexes 8 s) hyphen) (hexes 4)) hyphen) (hexes 4)) hyphen)
       (hexes 4)) hyphen) (hexes 12) = Some rest"
    and rest: "at_end rest"
    by (auto simp: key_id_match_def split: option.splits)
  from chain obtain r1 r2 r3 r4 r5 r6 r7 r8
    where h1: "hexes 8 s = Some r1" and y1: "hyphen r1 = Some r2"
      and h2: "hexes 4 r2 = Some r3" and y2: "hyphen r3 = Some r4"
      and h3: "hexes 4 r4 = Some r5" and y3: "hyphen r5 = Some r6"
      and h4: "hexes 4 r6 = Some r7" and y4: "hyphen r7 = Some r8"
      and h5: "hexes 12 r8 = Some rest"
    by (auto simp: bind_eq_Some_conv)
  from h1 obtain g1 where g1: "s = g1 @ r1" "length g1 = 8" "list_all hex_char g1"
    unfolding hexes_Some by blast
  from h2 obtain g2 where g2: "r2 = g2 @ r3" "length g2 = 4" "list_all hex_char g2"
    unfolding hexes_Some by blast
  from h3 obtain g3 where g3: "r4 = g3 @ r5" "length g3 = 4" "list_all hex_char g3"
    unfolding hexes_Some by blast
  from h4 obtain g4 where g4: "r6 = g4 @ r7" "length g4 = 4" "list_all hex_char g4"
    unfolding hexes_Some by blast
  from h5 obtain g5 where g5: "r8 = g5 @ rest" "length g5 = 12" "list_all hex_char g5"
    unfolding hexes_Some by blast
  from y1 y2 y3 y4 have y: "r1 = CHR ''-'' # r2" "r3 = CHR ''-'' # r4" "r5 = CHR ''-'' # r6"
    "r7 = CHR ''-'' # r8"
    by (simp_all add: hyphen_Some)
  have "s = g1 @ CHR ''-'' # g2 @ CHR ''-'' # g3 @ CHR ''-'' # g4 @ CHR ''-'' # g5 @ rest"
    using g1(1) g2(1) g3(1) g4(1) g5(1) y by simp
  with g1 g2 g3 g4 g5 rest show ?R by blast
next
  assume ?R
  then obtain g1 g2 g3 g4 g5 rest
    where s: "s = g1 @ CHR ''-'' # g2 @ CHR ''-'' # g3 @ CHR ''-'' # g4 @ CHR ''-'' # g5 @ rest"
    and len: "length g1 = 8" "length g2 = 4" "length g3 = 4" "length g4 = 4" "length g5 = 12"
    and hex: "list_all hex_char g1" "list_all hex_char g2" "list_all hex_char g3"
      "list_all hex_char g4" "list_all hex_char g5"
    and rest: "at_end rest"
    by blast
  show ?L
    unfolding key_id_match_def s
    using len hex rest by (simp add: hexes_append)
qed

lemma key_id_match_canonical:
  "key_id_match s \<longleftrightarrow> canonical_key_id s \<or> (\<exists>t. s = t @ [CHR 0x0A] \<and> canonical_key_id t)"
  (is "?L \<longleftrightarrow> ?R")
proof
  assume ?L
  then obtain g1 g2 g3 g4 g5 rest
    where s: "s = g1 @ CHR ''-'' # g2 @ CHR ''-'' # g3 @ CHR ''-'' # g4 @ CHR ''-'' # g5 @ rest"
    and shape: "length g1 = 8 \<and> length g2 = 4 \<and> length g3 = 4 \<and> length g4 = 4 \<and>
      length g5 = 12 \<and> list_all hex_char g1 \<and> list_all hex_char g2 \<and> list_all hex_char g3 \<and>
      list_all hex_char g4 \<and> list_all hex_char g5"
    and rest: "at_end rest"
    unfolding key_id_match_iff by blast
  let ?t = "g1 @ CHR ''-'' # g2 @ CHR ''-'' # g3 @ CHR ''-'' # g4 @ CHR ''-'' # g5"
  have t: "canonical_key_id ?t"
    unfolding canonical_key_id_iff using shape by blast
  have "s = ?t @ rest" using s by simp
  with rest t show ?R by (auto simp: at_end_def)
next
  assume ?R
  then obtain t rest where s: "s = t @ rest" and t: "canonical_key_id t" and rest: "at_end rest"
    by (auto simp: at_end_def)
  from t obtain g1 g2 g3 g4 g5
    where "t = g1 @ CHR ''-'' # g2 @ CHR ''-'' # g3 @ CHR ''-'' # g4 @ CHR ''-'' # g5"
    and shape: "length g1 = 8 \<and> length g2 = 4 \<and> length g3 = 4 \<and> length g4 = 4 \<and>
      length g5 = 12 \<and> list_all hex_char g1 \<and> list_all hex_char g2 \<and> list_all hex_char g3 \<and>
      list_all hex_char g4 \<and> list_all hex_char g5"
    unfolding canonical_key_id_iff by blast
  with s have "s = g1 @ CHR ''-'' # g2 @ CHR ''-'' # g3 @ CHR ''-'' # g4 @ CHR ''-'' # g5 @ rest"
    by simp
  with shape rest show ?L unfolding key_id_match_iff by blast
qed

subsection \<open>The backend of the specification raises only \<^verbatim>\<open>KeyError\<close>\<close>

lemma find_key_raises: "find_key s ref = Inl e \<Longrightarrow> e = KeyError"
  by (auto simp: find_key_def split: option.splits)

lemma set_rotation_raises: "set_rotation flag s ref = Inl e \<Longrightarrow> e = KeyError"
  by (auto simp: set_rotation_def split: sum.splits dest: find_key_raises)

lemma spec_get_key_rotation_status_raises:
  "spec_get_key_rotation_status s ref = Inl e \<Longrightarrow> e = KeyError"
  by (cases "find_key s ref") (auto simp: spec_get_key_rotation_status_def dest: find_key_raises)

lemma spec_put_key_policy_raises: "spec_put_key_policy s ref pol = Inl e \<Longrightarrow> e = KeyError"
  by (auto simp: spec_put_key_policy_def split: sum.splits dest: find_key_raises)

lemma spec_get_key_policy_raises: "spec_get_key_policy s ref = Inl e \<Longrightarrow> e = KeyError"
  by (cases "find_key s ref") (auto simp: spec_get_key_policy_def dest: find_key_raises)

lemma spec_decrypt_raises: "spec_decrypt s ciphertext ctx = Inl e \<Longrightarrow> e = KeyError"
  by (cases ciphertext) (auto split: if_splits option.splits)

subsection \<open>The alias index under the operations of the backend\<close>

lemma spec_alias_exists_iff:
  "spec_alias_exists s a \<longleftrightarrow> (\<exists>target aliases. (target, aliases) \<in> set (state_aliases s) \<and> a \<in> set aliases)"
  by (auto simp: spec_alias_exists_def list_ex_iff)

lemma set_store: "set (store k v d) \<subseteq> insert (k, v) (set d)"
  by (induction d) (auto split: if_splits)

lemma spec_add_alias_exists:
  assumes "spec_alias_exists (spec_add_alias s target name) a"
  shows "a = name \<or> spec_alias_exists s a"
proof -
  from assms obtain t aliases
    where mem: "(t, aliases) \<in> set (state_aliases (spec_add_alias s target name))"
      and a: "a \<in> set aliases"
    by (auto simp: spec_alias_exists_iff)
  show ?thesis
  proof (cases "map_of (state_aliases s) target")
    case None
    with mem have "(t, aliases) \<in> insert (target, [name]) (set (state_aliases s))"
      using set_store [of target "[name]" "state_aliases s"] by (auto simp: spec_add_alias_def)
    with a show ?thesis by (auto simp: spec_alias_exists_iff)
  next
    case (Some old)
    then have old: "(target, old) \<in> set (state_aliases s)" by (rule map_of_SomeD)
    from Some mem have "(t, aliases) \<in> insert (target, List.insert name old) (set (state_aliases s))"
      using set_store [of target "List.insert name old" "state_aliases s"]
      by (auto simp: spec_add_alias_def)
    with a old show ?thesis by (auto simp: spec_alias_exists_iff)
  qed
qed

lemma spec_delete_alias_exists:
  "spec_alias_exists (spec_delete_alias s name) a \<Longrightarrow> spec_alias_exists s a"
  by (fastforce simp: spec_alias_exists_iff spec_delete_alias_def)

lemma spec_alias_exists_cong:
  "state_aliases s' = state_aliases s \<Longrightarrow> spec_alias_exists s' a = spec_alias_exists s a"
  by (simp add: spec_alias_exists_def)

lemma set_rotation_aliases:
  "set_rotation flag s ref = Inr s' \<Longrightarrow> state_aliases s' = state_aliases s"
  by (auto simp: set_rotation_def split: sum.splits)

lemma spec_put_key_policy_aliases:
  "spec_put_key_policy s ref pol = Inr s' \<Longrightarrow> state_aliases s' = state_aliases s"
  by (auto simp: spec_put_key_policy_def split: sum.splits)

lemma spec_create_key_aliases:
  "spec_create_key gen s pol usage descr region = (s', k) \<Longrightarrow> state_aliases s' = state_aliases s"
  by (auto simp: spec_create_key_def Let_def)

lemma handle_keeps_alias_out:
  assumes "a \<in> set reserved_aliases" and "\<not> spec_alias_exists s a"
  shows "\<not> spec_alias_exists (fst (handle (spec_backend gen rnd) region s req)) a"
proof (cases req)
  case (CreateKey pol usage descr)
  then show ?thesis
    using assms(2)
    by (auto simp: create_key_def spec_backend_def spec_alias_exists_def
        split: prod.splits dest: spec_create_key_aliases)
next
  case (CreateAlias alias_name target_key_id)
  then show ?thesis
    using assms by (auto simp: create_alias_def spec_backend_def dest: spec_add_alias_exists)
next
  case (DeleteAlias alias_name)
  then show ?thesis
    using assms by (auto simp: delete_alias_def spec_backend_def dest: spec_delete_alias_exists)
next
  case (EnableKeyRotation kid)
  then show ?thesis
    using assms(2)
    by (auto simp: enable_key_rotation_def spec_backend_def spec_alias_exists_def
        split: option.splits sum.splits exn.splits dest: set_rotation_aliases)
next
  case (DisableKeyRotation kid)
  then show ?thesis
    using assms(2)
    by (auto simp: disable_key_rotation_def spec_backend_def spec_alias_exists_def
        split: option.splits sum.splits exn.splits dest: set_rotation_aliases)
next
  case (PutKeyPolicy kid policy_name pol)
  then show ?thesis
    using assms(2)
    by (auto simp: put_key_policy_def spec_backend_def spec_alias_exists_def
        split: option.splits sum.splits exn.splits dest: spec_put_key_policy_aliases)
qed (use assms(2) in \<open>auto simp: describe_key_def list_keys_def list_aliases_def
      get_key_rotation_status_def get_key_policy_def list_key_policies_def encrypt_def
      decrypt_def generate_data_key_def Let_def
      split: option.splits sum.splits exn.splits prod.splits\<close>)

lemma reachable_keeps_alias_out:
  assumes "reachable gen rnd s" and "a \<in> set reserved_aliases"
  shows "\<not> spec_alias_exists s a"
  using assms
proof (induction rule: reachable.induct)
  case initial
  then show ?case by (simp add: spec_alias_exists_def empty_state_def)
next
  case (step s region req)
  then show ?case by (simp add: handle_keeps_alias_out)
qed

lemma reachable_example_state:
  "reachable (\<lambda>s. example_key_id) (\<lambda>key_spec n. ''0123456789abcdef'') example_state"
proof -
  have "reachable (\<lambda>s. example_key_id) (\<lambda>key_spec n. ''0123456789abcdef'')
          (fst (handle example_backend ''us-east-1'' empty_state
                  (CreateKey (Some ''{}'') (Some ''ENCRYPT_DECRYPT'') None)))"
    unfolding example_backend_def by (rule reachable.step [OF reachable.initial])
  then show ?thesis by (simp add: example_state_created)
qed

subsection \<open>Failures leave the backend as it was\<close>

lemma handle_failed_state:
  "failed (snd (handle B region s req)) \<Longrightarrow> fst (handle B region s req) = s"
  by (cases req)
    (auto simp: create_key_def describe_key_def list_keys_def create_alias_def delete_alias_def
      list_aliases_def enable_key_rotation_def disable_key_rotation_def
      get_key_rotation_status_def put_key_policy_def get_key_policy_def list_key_policies_def
      encrypt_def decrypt_def generate_data_key_def Let_def
      split: option.splits sum.splits exn.splits prod.splits if_splits)

section \<open>The claims\<close>

text \<open>
  Claim C1. For a key reference whose resolved identifier passes the shape check and is
  registered, \<^verbatim>\<open>encrypt\<close> succeeds and returns the resolved identifier with a
  ciphertext; \<^verbatim>\<open>decrypt\<close> of that ciphertext with the same context returns the resolved
  identifier and the plaintext; with any other context it fails with InvalidCiphertext.
  The backend is the one modelled from the specification.
\<close>

theorem encrypt_decrypt_round_trip:
  assumes "key_id_match (parse_key_id ref)"
    and "map_of (state_keys s) (parse_key_id ref) = Some k"
  shows "encrypt (spec_backend gen rnd) region s ref plaintext ctx
           = (s, Inr (Encrypted (Envelope (parse_key_id ref) ctx plaintext) (parse_key_id ref))) \<and>
         decrypt (spec_backend gen rnd) region s (Envelope (parse_key_id ref) ctx plaintext) ctx
           = (s, Inr (Decrypted (parse_key_id ref) plaintext)) \<and>
         (\<forall>ctx2. ctx2 \<noteq> ctx \<longrightarrow>
            decrypt (spec_backend gen rnd) region s (Envelope (parse_key_id ref) ctx plaintext) ctx2
              = (s, Inl invalid_ciphertext)) \<and>
         failure_of invalid_ciphertext = Some InvalidCiphertext"
  using assms
  by (simp add: encrypt_def decrypt_def spec_backend_def spec_encrypt_def
      assert_valid_key_id_def failure_of_errors)

theorem encrypt_decrypt_round_trip_witness:
  "encrypt example_backend ''us-east-1'' example_state example_arn ''hello''
       (Some (fmap_of_list [(''ctx'', ''a'')]))
     = (example_state,
        Inr (Encrypted (Envelope example_key_id (Some (fmap_of_list [(''ctx'', ''a'')])) ''hello'')
               example_key_id)) \<and>
   decrypt example_backend ''us-east-1'' example_state
       (Envelope example_key_id (Some (fmap_of_list [(''ctx'', ''a'')])) ''hello'')
       (Some (fmap_of_list [(''ctx'', ''a'')]))
     = (example_state, Inr (Decrypted example_key_id ''hello'')) \<and>
   decrypt example_backend ''us-east-1'' example_state
       (Envelope example_key_id (Some (fmap_of_list [(''ctx'', ''a'')])) ''hello'')
       (Some (fmap_of_list [(''ctx'', ''b'')]))
     = (example_state, Inl invalid_ciphertext)"
proof -
  have m: "key_id_match (parse_key_id example_arn)"
    by (simp add: parse_example_arn example_key_id_match)
  have r: "map_of (state_keys example_state) (parse_key_id example_arn) = Some example_key"
    by (simp add: parse_example_arn example_state_def)
  have d: "Some (fmap_of_list [(''ctx'', ''b'')]) \<noteq> Some (fmap_of_list [(''ctx'', ''a'')])"
    by code_simp
  from encrypt_decrypt_round_trip [OF m r, of "\<lambda>s. example_key_id"
      "\<lambda>key_spec n. ''0123456789abcdef''" "''us-east-1''" "''hello''"
      "Some (fmap_of_list [(''ctx'', ''a'')])"] d
  show ?thesis by (simp add: parse_example_arn example_backend_def)
qed

text \<open>
  Claim C2, as amended. \<^verbatim>\<open>create_alias\<close> performs the six checks of the validation
  sequence in their order and stops at the first that fails, leaving the backend as it
  was; their failures are InvalidArgument, NotAuthorized, InvalidArgument,
  InvalidArgument, InvalidArgument and AlreadyExists. Check (5) is that the target is
  not a registered alias name. When all six pass, the alias is handed to \<^verbatim>\<open>add_alias\<close>.
  This holds for every backend.
\<close>

theorem create_alias_validation_order:
  "create_alias B region s alias_name target_key_id =
     (case first_failure (alias_creation_sequence B region s alias_name target_key_id) of
        Some e \<Rightarrow> (s, Inl e)
      | None \<Rightarrow> (backend_add_alias B s target_key_id alias_name, Inr JsonNone)) \<and>
   map (\<lambda>(passes, e). failure_of e)
       (alias_creation_sequence B region s alias_name target_key_id)
     = [Some InvalidArgument, Some NotAuthorized, Some InvalidArgument, Some InvalidArgument,
        Some InvalidArgument, Some AlreadyExists]"
  by (simp add: create_alias_def alias_creation_sequence_def failure_of_errors)

theorem create_alias_validation_order_witness:
  "create_alias example_backend ''us-east-1'' example_state ''alias/aws/s3:x'' example_key_id
     = (example_state, Inl (invalid_characters ''alias/aws/s3:x'')) \<and>
   create_alias example_backend ''us-east-1'' example_state ''alias/aws/s3'' example_key_id
     = (example_state, Inl not_authorized) \<and>
   create_alias example_backend ''us-east-1'' example_state ''key/aws/s3'' example_key_id
     = (example_state, Inl invalid_identifier) \<and>
   create_alias example_backend ''us-east-1'' example_state ''alias/a b'' example_key_id
     = (example_state, Inl (pattern_violation ''alias/a b''))"
proof -
  have e: "\<And>n. backend_alias_exists example_backend example_state n = False"
    by (simp add: example_backend_def spec_backend_def spec_alias_exists_def example_state_def)
  have m: "\<not> alias_name_match ''alias/a b''" by code_simp
  have m2: "alias_name_match ''alias/aws/s3''" by code_simp
  show ?thesis
    using create_alias_validation_order [of example_backend "''us-east-1''" example_state
        "''alias/aws/s3:x''" example_key_id]
      create_alias_validation_order [of example_backend "''us-east-1''" example_state
        "''alias/aws/s3''" example_key_id]
      create_alias_validation_order [of example_backend "''us-east-1''" example_state
        "''key/aws/s3''" example_key_id]
      create_alias_validation_order [of example_backend "''us-east-1''" example_state
        "''alias/a b''" example_key_id]
    by (simp add: alias_creation_sequence_def e m m2 startswith_def reserved_aliases_def)
qed

text \<open>
  Claim C2 as stated fails at check (5): the target need not be a real key. On a
  backend with no key at all, an alias for the identifier \<^verbatim>\<open>no-such-key\<close> is created.
\<close>

theorem create_alias_target_not_a_key_counterexample:
  "find_key empty_state ''no-such-key'' = Inl KeyError \<and>
   state_keys empty_state = [] \<and>
   create_alias example_backend ''us-east-1'' empty_state ''alias/foo'' ''no-such-key''
     = (\<lparr>state_keys = [], state_aliases = [(''no-such-key'', [''alias/foo''])]\<rparr>, Inr JsonNone)"
proof -
  have m: "alias_name_match ''alias/foo''" by code_simp
  show ?thesis
    by (simp add: create_alias_def m startswith_def reserved_aliases_def example_backend_def
        spec_backend_def spec_alias_exists_def spec_add_alias_def empty_state_def find_key_def)
qed

text \<open>
  Claim C3, as amended. In \<^verbatim>\<open>enable_key_rotation\<close>, \<^verbatim>\<open>disable_key_rotation\<close>,
  \<^verbatim>\<open>get_key_rotation_status\<close>, \<^verbatim>\<open>put_key_policy\<close>, \<^verbatim>\<open>get_key_policy\<close> and
  \<^verbatim>\<open>list_key_policies\<close> an identifier that the key-id pattern rejects fails with the
  invalid-key-id error, whose kind is NotFound, whatever the backend and its state: the
  check comes before any call of the backend. \<^verbatim>\<open>encrypt\<close> and \<^verbatim>\<open>generate_data_key\<close> do
  the same with the resolved identifier. The pattern accepts the identifiers of
  canonical shape and those followed by one line feed, and rejects every other string.
  \<^verbatim>\<open>describe_key\<close> makes no shape check: its answer is the key the backend finds, or
  the 404 answer when the lookup raises \<^verbatim>\<open>KeyError\<close>.
\<close>

theorem key_id_shape_checked_before_lookup:
  "(\<not> key_id_match kid \<longrightarrow>
      enable_key_rotation B region s kid = (s, Inl invalid_key_id) \<and>
      disable_key_rotation B region s kid = (s, Inl invalid_key_id) \<and>
      get_key_rotation_status B region s kid = (s, Inl invalid_key_id) \<and>
      put_key_policy B region s kid policy_name pol = (s, Inl invalid_key_id) \<and>
      get_key_policy B region s kid policy_name = (s, Inl invalid_key_id) \<and>
      list_key_policies B region s kid = (s, Inl invalid_key_id)) \<and>
   (\<not> key_id_match (parse_key_id kid) \<longrightarrow>
      encrypt B region s kid plaintext ctx = (s, Inl invalid_key_id) \<and>
      generate_data_key B region s kid key_spec n ctx = (s, Inl invalid_key_id)) \<and>
   failure_of invalid_key_id = Some NotFound \<and>
   (key_id_match kid \<longleftrightarrow>
      canonical_key_id kid \<or> (\<exists>t. kid = t @ [CHR 0x0A] \<and> canonical_key_id t)) \<and>
   (backend_describe_key B s kid = Inl KeyError \<longrightarrow>
      describe_key B region s kid = (s, Inr Status404)) \<and>
   (backend_describe_key B s kid = Inr k \<longrightarrow>
      describe_key B region s kid = (s, Inr (KeyDict k)))"
proof -
  have handlers:
    "(\<not> key_id_match kid \<longrightarrow>
      enable_key_rotation B region s kid = (s, Inl invalid_key_id) \<and>
      disable_key_rotation B region s kid = (s, Inl invalid_key_id) \<and>
      get_key_rotation_status B region s kid = (s, Inl invalid_key_id) \<and>
      put_key_policy B region s kid policy_name pol = (s, Inl invalid_key_id) \<and>
      get_key_policy B region s kid policy_name = (s, Inl invalid_key_id) \<and>
      list_key_policies B region s kid = (s, Inl invalid_key_id)) \<and>
     (\<not> key_id_match (parse_key_id kid) \<longrightarrow>
      encrypt B region s kid plaintext ctx = (s, Inl invalid_key_id) \<and>
      generate_data_key B region s kid key_spec n ctx = (s, Inl invalid_key_id)) \<and>
     (backend_describe_key B s kid = Inl KeyError \<longrightarrow>
      describe_key B region s kid = (s, Inr Status404)) \<and>
     (backend_describe_key B s kid = Inr k \<longrightarrow>
      describe_key B region s kid = (s, Inr (KeyDict k)))"
    by (simp add: enable_key_rotation_def disable_key_rotation_def
        get_key_rotation_status_def put_key_policy_def get_key_policy_def
        list_key_policies_def encrypt_def generate_data_key_def describe_key_def
        assert_valid_key_id_def)
  show ?thesis
    using handlers key_id_match_canonical [of kid] failure_of_errors(1) by blast
qed

theorem key_id_shape_checked_before_lookup_witness:
  "\<not> key_id_match ''1234'' \<and> \<not> canonical_key_id ''1234'' \<and>
   key_id_match example_key_id \<and> canonical_key_id example_key_id \<and>
   enable_key_rotation example_backend ''us-east-1'' example_state ''1234''
     = (example_state, Inl invalid_key_id) \<and>
   list_key_policies example_backend ''us-east-1'' example_state ''1234''
     = (example_state, Inl invalid_key_id) \<and>
   encrypt example_backend ''us-east-1'' example_state ''1234'' ''hello'' None
     = (example_state, Inl invalid_key_id) \<and>
   describe_key example_backend ''us-east-1'' example_state ''1234''
     = (example_state, Inr Status404)"
proof -
  have m: "\<not> key_id_match ''1234''" by code_simp
  have p: "parse_key_id ''1234'' = ''1234''" by code_simp
  have d: "backend_describe_key example_backend example_state ''1234'' = Inl KeyError"
    by (simp add: example_backend_def spec_backend_def find_key_def p example_state_def
        example_key_id_def)
  have c: "canonical_key_id example_key_id" unfolding example_key_id_def by code_simp
  from key_id_shape_checked_before_lookup [of "''1234''" example_backend "''us-east-1''"
      example_state None None "''hello''" None None None example_key] m p d c
    example_key_id_match
  show ?thesis by simp
qed

text \<open>
  Claim C3 as stated fails for \<^verbatim>\<open>describe_key\<close>: the ARN of a registered key does not
  have the canonical shape, and \<^verbatim>\<open>enable_key_rotation\<close> rejects it as an invalid key
  id, but \<^verbatim>\<open>describe_key\<close> hands it to the backend unchecked and returns the key.
\<close>

theorem describe_key_unchecked_counterexample:
  "\<not> key_id_match example_arn \<and>
   enable_key_rotation example_backend ''us-east-1'' example_state example_arn
     = (example_state, Inl invalid_key_id) \<and>
   describe_key example_backend ''us-east-1'' example_state example_arn
     = (example_state, Inr (KeyDict example_key))"
proof -
  have m: "\<not> key_id_match example_arn" unfolding example_arn_def by code_simp
  have d: "find_key example_state example_arn = Inr example_key"
    by (simp add: find_key_def parse_example_arn example_state_def)
  show ?thesis
    by (simp add: m d enable_key_rotation_def describe_key_def assert_valid_key_id_def
        example_backend_def spec_backend_def)
qed

text \<open>
  Claim C4. For a reserved alias name, \<^verbatim>\<open>create_alias\<close> fails with NotAuthorized for
  every target, backend and state, and leaves the backend as it was; the name is among
  those \<^verbatim>\<open>list_aliases\<close> lists, in every state of every backend; and no state that
  requests can produce from the empty backend of the specification has the name in its
  alias index.
\<close>

theorem reserved_aliases_are_synthetic:
  assumes "a \<in> set reserved_aliases"
  shows "create_alias B region s a target_key_id = (s, Inl not_authorized) \<and>
         failure_of not_authorized = Some NotAuthorized \<and>
         a \<in> set (listed_alias_names (snd (list_aliases B region s))) \<and>
         (reachable gen rnd t \<longrightarrow> \<not> spec_alias_exists t a)"
proof -
  have prefix: "startswith a ''alias/''"
    using assms by (auto simp: reserved_aliases_def startswith_def)
  have create: "create_alias B region s a target_key_id = (s, Inl not_authorized)"
    using assms prefix by (simp add: create_alias_def)
  have listed: "a \<in> set (listed_alias_names (snd (list_aliases B region s)))"
    using assms by (simp add: list_aliases_def Let_def comp_def)
  show ?thesis
    using create listed assms by (simp add: failure_of_errors reachable_keeps_alias_out)
qed

theorem reserved_aliases_are_synthetic_witness:
  "''alias/aws/s3'' \<in> set reserved_aliases \<and>
   create_alias example_backend ''us-east-1'' example_state ''alias/aws/s3'' example_key_id
     = (example_state, Inl not_authorized) \<and>
   ''alias/aws/s3'' \<in> set (listed_alias_names
                               (snd (list_aliases example_backend ''us-east-1'' example_state))) \<and>
   reachable (\<lambda>s. example_key_id) (\<lambda>key_spec n. ''0123456789abcdef'') example_state \<and>
   \<not> spec_alias_exists example_state ''alias/aws/s3''"
proof -
  have r: "''alias/aws/s3'' \<in> set reserved_aliases" by (simp add: reserved_aliases_def)
  from reserved_aliases_are_synthetic [OF r, of example_backend "''us-east-1''" example_state
      example_key_id "\<lambda>s. example_key_id" "\<lambda>key_spec n. ''0123456789abcdef''" example_state]
    r reachable_example_state
  show ?thesis by simp
qed

text \<open>
  Claim C5. \<^verbatim>\<open>decrypt\<close> turns the backend's \<^verbatim>\<open>KeyError\<close> into the invalid-ciphertext
  error, for every backend. With the backend modelled from the specification, a byte
  sequence that is not an envelope (malformed or foreign) and an envelope bound to
  another context than the one supplied both fail so; the kind of the error is
  InvalidCiphertext, not NotFound.
\<close>

theorem decrypt_invalid_ciphertext:
  "(backend_decrypt B s ciphertext ctx = Inl KeyError \<longrightarrow>
      decrypt B region s ciphertext ctx = (s, Inl invalid_ciphertext)) \<and>
   decrypt (spec_backend gen rnd) region t (Opaque b) ctx = (t, Inl invalid_ciphertext) \<and>
   (bound \<noteq> ctx \<longrightarrow>
      decrypt (spec_backend gen rnd) region t (Envelope kid bound payload) ctx
        = (t, Inl invalid_ciphertext)) \<and>
   failure_of invalid_ciphertext = Some InvalidCiphertext \<and>
   failure_of invalid_ciphertext \<noteq> Some NotFound"
  by (simp add: decrypt_def spec_backend_def failure_of_errors)

theorem decrypt_invalid_ciphertext_witness:
  "decrypt example_backend ''us-east-1'' example_state (Opaque ''not a ciphertext'') None
     = (example_state, Inl invalid_ciphertext) \<and>
   decrypt example_backend ''us-east-1'' example_state
       (Envelope example_key_id (Some (fmap_of_list [(''ctx'', ''a'')])) ''hello'') None
     = (example_state, Inl invalid_ciphertext) \<and>
   decrypt example_backend ''us-east-1'' example_state
       (Envelope example_key_id None ''hello'') None
     = (example_state, Inr (Decrypted example_key_id ''hello''))"
proof -
  have k: "backend_decrypt example_backend example_state (Opaque ''not a ciphertext'') None
             = Inl KeyError"
    by (simp add: example_backend_def spec_backend_def)
  have d: "Some (fmap_of_list [(''ctx'', ''a'')]) \<noteq> (None :: encryption_context)" by simp
  have g: "decrypt example_backend ''us-east-1'' example_state
       (Envelope example_key_id None ''hello'') None
     = (example_state, Inr (Decrypted example_key_id ''hello''))"
    by (simp add: decrypt_def example_backend_def spec_backend_def example_state_def)
  from decrypt_invalid_ciphertext [of example_backend example_state "Opaque ''not a ciphertext''"
      None "''us-east-1''" "\<lambda>s. example_key_id" "\<lambda>key_spec n. ''0123456789abcdef''"
      example_state "''not a ciphertext''" "Some (fmap_of_list [(''ctx'', ''a'')])"
      example_key_id "''hello''"]
    k d g
  show ?thesis by (simp add: example_backend_def)
qed

text \<open>
  Claim C6. A policy name other than \<^verbatim>\<open>"default"\<close> makes \<^verbatim>\<open>get_key_policy\<close> and
  \<^verbatim>\<open>put_key_policy\<close> fail with NotFound and leave the backend as it was, whatever the
  key; for an identifier that passes the shape check, as that of every existing key
  does, the failure is the no-such-policy error. When the key exists (the identifier
  passes the shape check and the backend finds the key), \<^verbatim>\<open>list_key_policies\<close> returns
  exactly the list \<^verbatim>\<open>["default"]\<close>. This holds for every backend.
\<close>

theorem only_default_policy:
  "(policy_name \<noteq> Some ''default'' \<longrightarrow>
      fst (get_key_policy B region s kid policy_name) = s \<and>
      outcome_failure (snd (get_key_policy B region s kid policy_name)) = Some NotFound \<and>
      fst (put_key_policy B region s kid policy_name pol) = s \<and>
      outcome_failure (snd (put_key_policy B region s kid policy_name pol)) = Some NotFound) \<and>
   (policy_name \<noteq> Some ''default'' \<and> key_id_match kid \<longrightarrow>
      get_key_policy B region s kid policy_name = (s, Inl no_such_policy) \<and>
      put_key_policy B region s kid policy_name pol = (s, Inl no_such_policy)) \<and>
   (key_id_match kid \<and> backend_describe_key B s kid = Inr k \<longrightarrow>
      list_key_policies B region s kid = (s, Inr (PolicyNames [''default''])))"
  by (simp add: get_key_policy_def put_key_policy_def list_key_policies_def
      assert_valid_key_id_def assert_default_policy_def failure_of_errors)

theorem only_default_policy_witness:
  "get_key_policy example_backend ''us-east-1'' example_state example_key_id (Some ''default'')
     = (example_state, Inr (Policy (Some ''{}''))) \<and>
   get_key_policy example_backend ''us-east-1'' example_state example_key_id (Some ''other'')
     = (example_state, Inl no_such_policy) \<and>
   put_key_policy example_backend ''us-east-1'' example_state example_key_id (Some ''other'')
       (Some ''{}'')
     = (example_state, Inl no_such_policy) \<and>
   outcome_failure (Inl no_such_policy) = Some NotFound \<and>
   list_key_policies example_backend ''us-east-1'' example_state example_key_id
     = (example_state, Inr (PolicyNames [''default'']))"
proof -
  have d: "backend_describe_key example_backend example_state example_key_id = Inr example_key"
    by (simp add: example_backend_def spec_backend_def find_example_key)
  have g: "get_key_policy example_backend ''us-east-1'' example_state example_key_id
             (Some ''default'')
           = (example_state, Inr (Policy (Some ''{}'')))"
    by (simp add: get_key_policy_def assert_valid_key_id_def assert_default_policy_def
        example_key_id_match example_backend_def spec_backend_def spec_get_key_policy_def
        find_example_key example_key_def)
  from only_default_policy [of "Some ''other''" example_backend "''us-east-1''" example_state
      example_key_id "Some ''{}''" example_key] d g example_key_id_match
  show ?thesis by (simp add: failure_of_errors)
qed

text \<open>
  Claim C7. Every request ends in a response or in one exception, and a request that
  fails (an exception, or the 404 answer of \<^verbatim>\<open>describe_key\<close>) leaves the backend as it
  was: every check of a handler comes before the one backend call that changes the
  state. This holds for every backend whose methods, when they raise, have changed
  nothing. With the backend of the specification every failure has one of the five
  failure kinds.
\<close>

theorem failure_leaves_backend_unchanged:
  "(failed (snd (handle B region s req)) \<longrightarrow> fst (handle B region s req) = s) \<and>
   (failed (snd (handle (spec_backend gen rnd) region t req)) \<longrightarrow>
      outcome_failure (snd (handle (spec_backend gen rnd) region t req)) \<noteq> None)"
proof -
  have typed: "outcome_failure (snd (handle (spec_backend gen rnd) region t req)) \<noteq> None"
    if "failed (snd (handle (spec_backend gen rnd) region t req))"
    using that
    by (cases req)
      (auto simp: create_key_def describe_key_def list_keys_def create_alias_def
        delete_alias_def list_aliases_def enable_key_rotation_def disable_key_rotation_def
        get_key_rotation_status_def put_key_policy_def get_key_policy_def
        list_key_policies_def encrypt_def decrypt_def generate_data_key_def Let_def
        assert_valid_key_id_def assert_default_policy_def failure_of_errors
        spec_backend_def spec_encrypt_def spec_generate_data_key_def
        split: option.splits sum.splits exn.splits prod.splits if_splits
        dest: find_key_raises set_rotation_raises spec_get_key_rotation_status_raises
          spec_put_key_policy_raises spec_get_key_policy_raises spec_decrypt_raises)
  show ?thesis
    using typed by (simp add: handle_failed_state)
qed

theorem failure_leaves_backend_unchanged_witness:
  "handle example_backend ''us-east-1'' example_state (DeleteAlias ''alias/foo'')
     = (example_state, Inl (alias_not_found ''us-east-1'' ''alias/foo'')) \<and>
   failed (Inl (alias_not_found ''us-east-1'' ''alias/foo'')) \<and>
   outcome_failure (Inl (alias_not_found ''us-east-1'' ''alias/foo'')) = Some NotFound"
proof -
  have h: "snd (handle example_backend ''us-east-1'' example_state (DeleteAlias ''alias/foo''))
             = Inl (alias_not_found ''us-east-1'' ''alias/foo'')"
    by (simp add: delete_alias_def startswith_def example_backend_def spec_backend_def
        spec_alias_exists_def example_state_def)
  from failure_leaves_backend_unchanged [of example_backend "''us-east-1''" example_state
      "DeleteAlias ''alias/foo''" "\<lambda>s. example_key_id" "\<lambda>key_spec n. ''0123456789abcdef''"
      example_state] h
  show ?thesis by (simp add: prod_eq_iff failure_of_errors)
qed

text \<open>
  Claim C8. \<^verbatim>\<open>encrypt\<close> resolves the key reference first: the shape check is made on
  the resolved identifier, and with the backend of the specification the envelope is
  bound to the resolved identifier, which is also the \<^verbatim>\<open>KeyId\<close> of the response. A
  reference without \<^verbatim>\<open>arn\<close> in it resolves to itself, and the ARN of a key to the
  identifier that ends it.
\<close>

theorem encrypt_resolves_key_reference:
  "encrypt (spec_backend gen rnd) region s ref plaintext ctx =
     (if key_id_match (parse_key_id ref)
      then (s, Inr (Encrypted (Envelope (parse_key_id ref) ctx plaintext) (parse_key_id ref)))
      else (s, Inl invalid_key_id)) \<and>
   (\<not> py_in ''arn'' ref \<longrightarrow> parse_key_id ref = ref) \<and>
   (CHR '':'' \<notin> set kid \<and> CHR ''/'' \<notin> set kid \<longrightarrow>
      parse_key_id (arn_of arn_region (''key/'' @ kid)) = kid)"
proof -
  have resolved: "encrypt (spec_backend gen rnd) region s ref plaintext ctx =
     (if key_id_match (parse_key_id ref)
      then (s, Inr (Encrypted (Envelope (parse_key_id ref) ctx plaintext) (parse_key_id ref)))
      else (s, Inl invalid_key_id))"
    by (simp add: encrypt_def spec_backend_def spec_encrypt_def assert_valid_key_id_def)
  show ?thesis
    using resolved parse_key_id_bare [of ref] parse_key_id_arn [of kid arn_region] by blast
qed

theorem encrypt_resolves_key_reference_witness:
  "encrypt example_backend ''us-east-1'' empty_state example_arn ''hello'' None
     = (empty_state, Inr (Encrypted (Envelope example_key_id None ''hello'') example_key_id)) \<and>
   encrypt example_backend ''us-east-1'' empty_state example_key_id ''hello'' None
     = (empty_state, Inr (Encrypted (Envelope example_key_id None ''hello'') example_key_id)) \<and>
   example_arn = arn_of ''us-east-1'' (''key/'' @ example_key_id)"
proof -
  have b: "\<not> py_in ''arn'' example_key_id" unfolding example_key_id_def by code_simp
  have c: "CHR '':'' \<notin> set example_key_id \<and> CHR ''/'' \<notin> set example_key_id"
    by (simp add: example_key_id_def)
  have a: "example_arn = arn_of ''us-east-1'' (''key/'' @ example_key_id)"
    by (simp add: example_arn_def arn_of_def example_key_id_def)
  from encrypt_resolves_key_reference [of "\<lambda>s. example_key_id"
      "\<lambda>key_spec n. ''0123456789abcdef''" "''us-east-1''" empty_state example_arn "''hello''"
      None example_key_id "''us-east-1''"]
    encrypt_resolves_key_reference [of "\<lambda>s. example_key_id"
      "\<lambda>key_spec n. ''0123456789abcdef''" "''us-east-1''" empty_state example_key_id "''hello''"
      None example_key_id "''us-east-1''"]
    a b c example_key_id_match
  show ?thesis by (simp add: example_backend_def)
qed

text \<open>
  Claim C9. \<^verbatim>\<open>create_alias\<close> never asks whether the target key exists: when the alias
  name passes the prefix, reserved-name, colon and pattern checks, and neither the
  target nor the name is a registered alias, it hands the pair to \<^verbatim>\<open>add_alias\<close> and
  succeeds. Nothing is assumed of the key registry; the example creates an alias for a
  key that no registry holds.
\<close>

theorem create_alias_ignores_key_registry:
  assumes "startswith alias_name ''alias/''"
    and "alias_name \<notin> set reserved_aliases"
    and "CHR '':'' \<notin> set alias_name"
    and "alias_name_match alias_name"
    and "\<not> backend_alias_exists B s target_key_id"
    and "\<not> backend_alias_exists B s alias_name"
  shows "create_alias B region s alias_name target_key_id
           = (backend_add_alias B s target_key_id alias_name, Inr JsonNone)"
  using assms by (simp add: create_alias_def)

theorem create_alias_ignores_key_registry_witness:
  "state_keys empty_state = [] \<and>
   startswith ''alias/foo'' ''alias/'' \<and> ''alias/foo'' \<notin> set reserved_aliases \<and>
   CHR '':'' \<notin> set ''alias/foo'' \<and> alias_name_match ''alias/foo'' \<and>
   \<not> backend_alias_exists example_backend empty_state ''no-such-key'' \<and>
   \<not> backend_alias_exists example_backend empty_state ''alias/foo'' \<and>
   create_alias example_backend ''us-east-1'' empty_state ''alias/foo'' ''no-such-key''
     = (\<lparr>state_keys = [], state_aliases = [(''no-such-key'', [''alias/foo''])]\<rparr>, Inr JsonNone) \<and>
   backend_alias_exists example_backend
     \<lparr>state_keys = [], state_aliases = [(''no-such-key'', [''alias/foo''])]\<rparr> ''alias/foo''"
proof -
  have a: "startswith ''alias/foo'' ''alias/''" by (simp add: startswith_def)
  have b: "''alias/foo'' \<notin> set reserved_aliases" by (simp add: reserved_aliases_def)
  have c: "CHR '':'' \<notin> set ''alias/foo''" by simp
  have d: "alias_name_match ''alias/foo''" by code_simp
  have e: "\<not> backend_alias_exists example_backend empty_state ''no-such-key''"
    by (simp add: example_backend_def spec_backend_def spec_alias_exists_def empty_state_def)
  have f: "\<not> backend_alias_exists example_backend empty_state ''alias/foo''"
    by (simp add: example_backend_def spec_backend_def spec_alias_exists_def empty_state_def)
  have g: "backend_add_alias example_backend empty_state ''no-such-key'' ''alias/foo''
    = \<lparr>state_keys = [], state_aliases = [(''no-such-key'', [''alias/foo''])]\<rparr>"
    by (simp add: example_backend_def spec_backend_def spec_add_alias_def empty_state_def)
  have h: "backend_alias_exists example_backend
     \<lparr>state_keys = [], state_aliases = [(''no-such-key'', [''alias/foo''])]\<rparr> ''alias/foo''"
    by (simp add: example_backend_def spec_backend_def spec_alias_exists_def)
  from create_alias_ignores_key_registry [OF a b c d e f, of "''us-east-1''"] a b c d e f g h
  show ?thesis by (simp add: empty_state_def)
qed

text \<open>
  Claim C10. When \<^verbatim>\<open>generate_data_key\<close> succeeds, the \<^verbatim>\<open>KeyId\<close> of its response is the
  key reference the caller sent, as sent; the identifier in the backend's triple does
  not occur in the response. This holds for every backend; in the example the caller
  sends an ARN, the backend answers with the bare identifier, and the response carries
  the ARN.
\<close>

theorem generate_data_key_echoes_caller_key_id:
  assumes "key_id_match (parse_key_id kid)"
    and "backend_generate_data_key B s kid key_spec n ctx
           = Inr (plaintext, backend_key_id, ciphertext)"
  shows "generate_data_key B region s kid key_spec n ctx
           = (s, Inr (DataKey ciphertext kid plaintext))"
  using assms by (simp add: generate_data_key_def assert_valid_key_id_def)

theorem generate_data_key_echoes_caller_key_id_witness:
  "key_id_match (parse_key_id example_arn) \<and>
   backend_generate_data_key example_backend example_state example_arn None (Some 16) None
     = Inr (''0123456789abcdef'', example_key_id,
            Envelope example_key_id None ''0123456789abcdef'') \<and>
   generate_data_key example_backend ''us-east-1'' example_state example_arn None (Some 16) None
     = (example_state,
        Inr (DataKey (Envelope example_key_id None ''0123456789abcdef'') example_arn
               ''0123456789abcdef'')) \<and>
   example_arn \<noteq> example_key_id"
proof -
  have m: "key_id_match (parse_key_id example_arn)"
    by (simp add: parse_example_arn example_key_id_match)
  have b: "backend_generate_data_key example_backend example_state example_arn None (Some 16) None
     = Inr (''0123456789abcdef'', example_key_id,
            Envelope example_key_id None ''0123456789abcdef'')"
    by (simp add: example_backend_def spec_backend_def spec_generate_data_key_def
        parse_example_arn Let_def)
  have d: "example_arn \<noteq> example_key_id"
    by (simp add: example_arn_def example_key_id_def)
  from generate_data_key_echoes_caller_key_id [OF m b] m b d show ?thesis by simp
qed

end
